theory Spec2Isabelle
  imports Main "HOL-Library.Sublist" "HOL-Library.Word"
begin

section \<open>Data model of the file consumer\<close>

text \<open>
  The development covers two functions of \<^verbatim>\<open>pkg/stanza/fileconsumer\<close>:
  \<^verbatim>\<open>Factory.NewReaderFromMetadata\<close> (package \<^verbatim>\<open>internal/reader\<close>) and
  \<^verbatim>\<open>Manager.readLostFiles\<close> (\<^verbatim>\<open>file_other.go\<close>).

  Go's \<^verbatim>\<open>int\<close> and \<^verbatim>\<open>int64\<close> values (fingerprint sizes, offsets, file sizes) are only
  compared and assigned by these two functions, never added or multiplied, so they are
  modelled as \<^typ>\<open>int\<close>: no wrap-around can occur.
\<close>

type_synonym byte = "8 word"

text \<open>
  Modelled from the spec: the package \<^verbatim>\<open>internal/fingerprint\<close> is not part of the
  sources. A fingerprint is "an ordered byte sequence of bounded length, captured from
  the start of file content"; \<^verbatim>\<open>Len()\<close> is its length and \<^verbatim>\<open>StartsWith(other)\<close>
  "returns true iff other is a byte-prefix of the receiver".
\<close>

type_synonym fingerprint = "byte list"

definition Len :: "fingerprint \<Rightarrow> int" where
  "Len fp = int (length fp)"

definition StartsWith :: "fingerprint \<Rightarrow> fingerprint \<Rightarrow> bool" where
  "StartsWith fp other = prefix other fp"

text \<open>An open \<^verbatim>\<open>*os.File\<close>: the name it was opened with and its descriptor.\<close>

record osFile =
  Name :: string
  fd :: nat

datatype attribute = AttrString string | AttrInt int

datatype header_Config = Header_Config string

datatype header_Reader = Header_Reader header_Config

text \<open>
  \<^verbatim>\<open>reader.Metadata\<close>. The token-length and flush states are closures' private state
  and are not read by the two functions; they are left out. \<^verbatim>\<open>FileAttributes\<close> is a Go
  map, which may be \<^verbatim>\<open>nil\<close> (\<open>None\<close>): reading a nil map is allowed, writing to it
  panics.
\<close>

record metadata =
  Fingerprint :: fingerprint
  Offset :: int
  FileAttributes :: "(string \<rightharpoonup> attribute) option"
  HeaderFinalized :: bool
  FileType :: string

text \<open>
  \<^verbatim>\<open>reader.Factory\<close>. The fields holding functions or pools (\<^verbatim>\<open>SplitFunc\<close>,
  \<^verbatim>\<open>TrimFunc\<close>, \<^verbatim>\<open>EmitFunc\<close>, \<^verbatim>\<open>Encoding\<close>, \<^verbatim>\<open>BufPool\<close>, \<^verbatim>\<open>FlushTimeout\<close>) are only
  copied into closures and are left out. \<^verbatim>\<open>Attributes\<close> is the attribute resolver: its
  \<^verbatim>\<open>Resolve(file)\<close> returns an error or a map.
\<close>

record factory =
  HeaderConfig :: "header_Config option"
  FromBeginning :: bool
  FingerprintSize :: int
  InitialBufferSize :: int
  MaxLogSize :: int
  Attributes :: "osFile \<Rightarrow> string + (string \<rightharpoonup> attribute)"
  DeleteAtEOF :: bool
  Compression :: string
  AcquireFSLock :: bool

text \<open>
  \<^verbatim>\<open>reader.Reader\<close>. It embeds \<^verbatim>\<open>*Metadata\<close>: the Reader and the caller share one
  Metadata object, so the field \<open>Metadata\<close> of a Reader returned by the model is the
  final state of the caller's Metadata.
\<close>

record reader =
  Metadata :: metadata
  file' :: osFile
  fileName :: string
  fingerprintSize :: int
  initialBufferSize :: int
  maxLogSize :: int
  deleteAtEOF :: bool
  compression :: string
  acquireFSLock :: bool
  maxBatchSize :: int
  headerReader :: "header_Reader option"

definition DefaultMaxBatchSize :: int where
  "DefaultMaxBatchSize = 100"

text \<open>
  The calls that leave the program. Each is made at most once by
  \<^verbatim>\<open>NewReaderFromMetadata\<close>, so a function giving its result is fully general:
  \<^verbatim>\<open>fingerprint.NewFromFile(file, size, decompress)\<close>, \<^verbatim>\<open>file.Stat()\<close> (of which only
  \<^verbatim>\<open>Size()\<close> is used) and \<^verbatim>\<open>header.NewReader(settings, config)\<close>. An error carries
  its message.
\<close>

record os =
  NewFromFile :: "osFile \<Rightarrow> int \<Rightarrow> bool \<Rightarrow> string + fingerprint"
  Stat :: "osFile \<Rightarrow> string + int"
  header_NewReader :: "header_Config \<Rightarrow> string + header_Reader"

text \<open>
  The errors \<^verbatim>\<open>NewReaderFromMetadata\<close> returns, in the order of the source, and the
  run-time panic of \<^verbatim>\<open>maps.Copy\<close> into a nil map.
\<close>

datatype error =
    RereadFingerprint string
  | FileTruncated
  | StatError string
  | HeaderReaderError string
  | ResolveError string
  | PanicNilMap

text \<open>
  The log entries of both functions. The entries of \<^verbatim>\<open>readLostFiles\<close> carry the
  readers their fields (paths, fingerprint lengths and heads) are computed from.
\<close>

datatype logEntry =
    WarnOffsetExceeds string int int
  | DebugFromBeginning string
  | DebugTailing string int
  | DebugResuming string int int
  | DebugLostCheck reader reader
  | DebugStartsWithMatched reader reader
  | DebugRotatedTruncated reader
  | DebugRotatedMoved reader
  | DebugReadingLostFile reader

section \<open>NewReaderFromMetadata\<close>

text \<open>
  What a call leaves behind: the caller's Metadata (mutated in place through the
  pointer), the log, and the returned pair, \<open>Inl\<close> for \<^verbatim>\<open>(nil, err)\<close> and \<open>Inr\<close> for
  \<^verbatim>\<open>(r, nil)\<close>.
\<close>

record outcome =
  meta :: metadata
  logged :: "logEntry list"
  result :: "error + reader"

text \<open>
  Lines 101-111: the stored fingerprint is longer than the configured size.
  The result is the error returned, or the Metadata after the assignment
  \<^verbatim>\<open>m.Fingerprint = shorter\<close>.
\<close>

definition handleFingerprintLength :: "os \<Rightarrow> factory \<Rightarrow> osFile \<Rightarrow> metadata \<Rightarrow> error + metadata" where
  "handleFingerprintLength w f fl m =
     (if Len (Fingerprint m) > FingerprintSize f then
        (case NewFromFile w fl (FingerprintSize f) (Compression f \<noteq> []) of
           Inl rereadErr \<Rightarrow> Inl (RereadFingerprint rereadErr)
         | Inr shorter \<Rightarrow>
             if \<not> StartsWith (Fingerprint m) shorter then Inl FileTruncated
             else Inr (m\<lparr>Fingerprint := shorter\<rparr>))
      else Inr m)"

text \<open>Lines 120-128: an offset beyond the file size is reset, with a warning.\<close>

definition resetOffset :: "osFile \<Rightarrow> int \<Rightarrow> metadata \<Rightarrow> metadata \<times> logEntry list" where
  "resetOffset fl fileSize m =
     (if Offset m > fileSize
      then (m\<lparr>Offset := 0\<rparr>, [WarnOffsetExceeds (Name fl) (Offset m) fileSize])
      else (m, []))"

text \<open>Lines 135-152: the value of \<^verbatim>\<open>start\<close>, and the debug entry of the branch taken.\<close>

definition startOffset :: "factory \<Rightarrow> osFile \<Rightarrow> int \<Rightarrow> metadata \<Rightarrow> int \<times> logEntry list" where
  "startOffset f fl fileSize m =
     (let start = Offset m in
      if start = 0 then
        (if FromBeginning f then (0, [DebugFromBeginning (Name fl)])
         else (fileSize, [DebugTailing (Name fl) fileSize]))
      else (start, [DebugResuming (Name fl) start fileSize]))"

text \<open>Lines 161-168: the optional header reader.\<close>

definition attachHeaderReader :: "os \<Rightarrow> factory \<Rightarrow> metadata \<Rightarrow> error + header_Reader option" where
  "attachHeaderReader w f m =
     (case HeaderConfig f of
        None \<Rightarrow> Inr None
      | Some cfg \<Rightarrow>
          if \<not> HeaderFinalized m then
            (case header_NewReader w cfg of
               Inl err \<Rightarrow> Inl (HeaderReaderError err)
             | Inr hr \<Rightarrow> Inr (Some hr))
          else Inr None)"

text \<open>
  \<^verbatim>\<open>maps.Copy(dst, src)\<close> assigns \<^verbatim>\<open>dst[k] = v\<close> for every entry of \<^verbatim>\<open>src\<close>. With a nil
  \<^verbatim>\<open>dst\<close> the first assignment panics; with an empty \<^verbatim>\<open>src\<close> nothing is assigned.
\<close>

definition maps_Copy :: "('k \<rightharpoonup> 'v) option \<Rightarrow> ('k \<rightharpoonup> 'v) \<Rightarrow> error + ('k \<rightharpoonup> 'v) option" where
  "maps_Copy dst src =
     (case dst of
        None \<Rightarrow> if dom src = {} then Inr None else Inl PanicNilMap
      | Some d \<Rightarrow> Inr (Some (d ++ src)))"

text \<open>Lines 170-175: attributes are resolved again and copied into the Metadata's map.\<close>

definition resolveAttributes :: "factory \<Rightarrow> osFile \<Rightarrow> metadata \<Rightarrow> error + metadata" where
  "resolveAttributes f fl m =
     (case Attributes f fl of
        Inl err \<Rightarrow> Inl (ResolveError err)
      | Inr attributes \<Rightarrow>
          (case maps_Copy (FileAttributes m) attributes of
             Inl p \<Rightarrow> Inl p
           | Inr fa \<Rightarrow> Inr (m\<lparr>FileAttributes := fa\<rparr>)))"

text \<open>Lines 83-98: the Reader as first built, around the Metadata \<open>m\<close>.\<close>

definition initialReader :: "factory \<Rightarrow> osFile \<Rightarrow> metadata \<Rightarrow> reader" where
  "initialReader f fl m =
     \<lparr>Metadata = m, file' = fl, fileName = Name fl,
      fingerprintSize = FingerprintSize f,
      initialBufferSize = InitialBufferSize f,
      maxLogSize = MaxLogSize f,
      deleteAtEOF = DeleteAtEOF f,
      compression = Compression f,
      acquireFSLock = AcquireFSLock f,
      maxBatchSize = DefaultMaxBatchSize,
      headerReader = None\<rparr>"

text \<open>
  Lines 113-177, run on the Metadata as the fingerprint step left it. Every early
  \<^verbatim>\<open>return nil, err\<close> is a branch giving the Metadata and the log as they are at
  that point; \<^verbatim>\<open>r.Offset = start\<close> writes the caller's Metadata, which the Reader
  embeds by pointer.
\<close>

definition constructAfterFingerprint :: "os \<Rightarrow> factory \<Rightarrow> osFile \<Rightarrow> metadata \<Rightarrow> outcome" where
  "constructAfterFingerprint w f fl m1 =
     (case Stat w fl of
        Inl statErr \<Rightarrow> \<lparr>meta = m1, logged = [], result = Inl (StatError statErr)\<rparr>
      | Inr fileSize \<Rightarrow>
          (case resetOffset fl fileSize m1 of
             (m2, warn) \<Rightarrow>
               (case startOffset f fl fileSize m2 of
                  (start, dbg) \<Rightarrow>
                    (let m3 = m2\<lparr>Offset := start\<rparr> in
                     case attachHeaderReader w f m3 of
                       Inl err \<Rightarrow> \<lparr>meta = m3, logged = warn @ dbg, result = Inl err\<rparr>
                     | Inr hr \<Rightarrow>
                         (case resolveAttributes f fl m3 of
                            Inl err \<Rightarrow> \<lparr>meta = m3, logged = warn @ dbg, result = Inl err\<rparr>
                          | Inr m4 \<Rightarrow>
                              \<lparr>meta = m4, logged = warn @ dbg,
                               result = Inr ((initialReader f fl m4)\<lparr>headerReader := hr\<rparr>)\<rparr>)))))"

text \<open>The whole function: the fingerprint step, then the rest.\<close>

definition NewReaderFromMetadata :: "os \<Rightarrow> factory \<Rightarrow> osFile \<Rightarrow> metadata \<Rightarrow> outcome" where
  "NewReaderFromMetadata w f fl m =
     (case handleFingerprintLength w f fl m of
        Inl err \<Rightarrow> \<lparr>meta = m, logged = [], result = Inl err\<rparr>
      | Inr m1 \<Rightarrow> constructAfterFingerprint w f fl m1)"

text \<open>
  Reading a Go map that may be nil: a nil map has no entries.
\<close>

definition entriesOf :: "('k \<rightharpoonup> 'v) option \<Rightarrow> ('k \<rightharpoonup> 'v)" where
  "entriesOf mp = (case mp of None \<Rightarrow> Map.empty | Some d \<Rightarrow> d)"

section \<open>readLostFiles\<close>

text \<open>
  The tracker's two reader sequences and the Manager holding it. The tracker's own code
  is not part of the sources; \<^verbatim>\<open>readLostFiles\<close> only reads the two sequences.
\<close>

record tracker =
  PreviousPollFiles :: "reader list"
  CurrentPollFiles :: "reader list"

record manager =
  readerFactory :: factory
  tracker :: tracker

text \<open>
  Modelled from the spec: \<^verbatim>\<open>Reader.NameEquals\<close> is not part of the sources; the spec
  gives it as \<^verbatim>\<open>new.Name == old.Name\<close>.
\<close>

definition NameEquals :: "reader \<Rightarrow> reader \<Rightarrow> bool" where
  "NameEquals r other = (fileName r = fileName other)"

text \<open>
  \<^verbatim>\<open>Reader.Validate\<close> is not part of the sources either. It re-reads the file behind the
  reader; its answer for each reader is taken as a parameter \<open>V\<close> of the model. The
  loops below write nothing, so within one run the answer depends on the reader only.

  The inner loop (lines 30-62) for one \<open>old\<close> reader: \<open>True\<close> when it leaves through
  \<^verbatim>\<open>continue OUTER\<close>, \<open>False\<close> when it runs to its end (and line 63 is reached),
  together with the debug entries it logs.
\<close>

fun checkAgainstCurrent :: "(reader \<Rightarrow> bool) \<Rightarrow> reader \<Rightarrow> reader list \<Rightarrow> bool \<times> logEntry list" where
  "checkAgainstCurrent V oldReader [] = (False, [])"
| "checkAgainstCurrent V oldReader (newReader # rest) =
     (if StartsWith (Fingerprint (Metadata newReader)) (Fingerprint (Metadata oldReader)) then
        (True, [DebugLostCheck oldReader newReader, DebugStartsWithMatched oldReader newReader])
      else if \<not> NameEquals newReader oldReader then
        (case checkAgainstCurrent V oldReader rest of
           (c, l) \<Rightarrow> (c, DebugLostCheck oldReader newReader # l))
      else if \<not> V oldReader then
        (True, [DebugLostCheck oldReader newReader, DebugRotatedTruncated oldReader])
      else
        (case checkAgainstCurrent V oldReader rest of
           (c, l) \<Rightarrow> (c, DebugLostCheck oldReader newReader # DebugRotatedMoved oldReader # l)))"

text \<open>
  The outer loop (lines 29-64) over the remaining previous-poll readers, with the
  \<^verbatim>\<open>lostReaders\<close> slice built so far.
\<close>

fun collectLostReaders ::
  "(reader \<Rightarrow> bool) \<Rightarrow> reader list \<Rightarrow> reader list \<Rightarrow> reader list \<Rightarrow> reader list \<times> logEntry list" where
  "collectLostReaders V current [] lostReaders = (lostReaders, [])"
| "collectLostReaders V current (oldReader # rest) lostReaders =
     (case checkAgainstCurrent V oldReader current of
        (continueOuter, l) \<Rightarrow>
          (case collectLostReaders V current rest
                  (if continueOuter then lostReaders else lostReaders @ [oldReader]) of
             (lost, l') \<Rightarrow> (lost, l @ l')))"

text \<open>
  What one call of \<^verbatim>\<open>readLostFiles\<close> does: the final \<^verbatim>\<open>lostReaders\<close> slice (empty when
  the function returns before building it), the readers for which a worker is started
  and \<^verbatim>\<open>ReadToEnd\<close> called, in the order the workers are started, and the log.
  The order in which the workers run is not modelled.
\<close>

record lostFilesRun =
  lostReaders :: "reader list"
  readToEnd :: "reader list"
  entries :: "logEntry list"

definition readLostFiles :: "(reader \<Rightarrow> bool) \<Rightarrow> manager \<Rightarrow> lostFilesRun" where
  "readLostFiles V m =
     (if DeleteAtEOF (readerFactory m) then
        \<lparr>lostReaders = [], readToEnd = [], entries = []\<rparr>
      else
        (case collectLostReaders V (CurrentPollFiles (tracker m))
                (PreviousPollFiles (tracker m)) [] of
           (lost, l) \<Rightarrow>
             \<lparr>lostReaders = lost, readToEnd = lost,
              entries = l @ map DebugReadingLostFile lost\<rparr>))"

text \<open>The partners a log shows as examined: the \<open>new\<close> reader of every lost-check entry.\<close>

fun examined :: "logEntry list \<Rightarrow> reader list" where
  "examined [] = []"
| "examined (DebugLostCheck oldReader newReader # l) = newReader # examined l"
| "examined (e # l) = examined l"

text \<open>
  The Metadata after lines 120-154: the offset reset, then \<^verbatim>\<open>r.Offset = start\<close>.
\<close>

definition offsetResolved :: "factory \<Rightarrow> osFile \<Rightarrow> int \<Rightarrow> metadata \<Rightarrow> metadata" where
  "offsetResolved f fl fileSize m1 =
     (fst (resetOffset fl fileSize m1))
       \<lparr>Offset := fst (startOffset f fl fileSize (fst (resetOffset fl fileSize m1)))\<rparr>"

section \<open>Concrete readers, files and managers\<close>

text \<open>
  The inputs at which the theorems below are instantiated: readers on \<^verbatim>\<open>app.log\<close>
  with fingerprints \<open>[1,2,3]\<close> (the previous poll's), \<open>[1,2,3,4]\<close> (the file grew) and
  \<open>[1,2]\<close> (a shorter file under the same name), a reader on another file, and the
  current poll's reader on \<^verbatim>\<open>app.log\<close> when the file grew beyond its fingerprint, which
  is then unchanged.
\<close>

definition mkReader :: "string \<Rightarrow> nat \<Rightarrow> fingerprint \<Rightarrow> reader" where
  "mkReader path d fp =
     \<lparr>Metadata = \<lparr>Fingerprint = fp, Offset = 0, FileAttributes = Some Map.empty,
                   HeaderFinalized = False, FileType = []\<rparr>,
      file' = \<lparr>Name = path, fd = d\<rparr>, fileName = path, fingerprintSize = 4,
      initialBufferSize = 16384, maxLogSize = 1048576, deleteAtEOF = False,
      compression = [], acquireFSLock = False, maxBatchSize = 100, headerReader = None\<rparr>"

definition exFactory :: "bool \<Rightarrow> factory" where
  "exFactory fromBeginning =
     \<lparr>HeaderConfig = None, FromBeginning = fromBeginning, FingerprintSize = 4,
      InitialBufferSize = 16384, MaxLogSize = 1048576,
      Attributes = (\<lambda>fl. Inr [''log.file.name'' \<mapsto> AttrString (Name fl)]),
      DeleteAtEOF = False, Compression = [], AcquireFSLock = False\<rparr>"

definition exManager :: "bool \<Rightarrow> reader list \<Rightarrow> reader list \<Rightarrow> manager" where
  "exManager del prev cur =
     \<lparr>readerFactory = (exFactory True)\<lparr>DeleteAtEOF := del\<rparr>,
      tracker = \<lparr>PreviousPollFiles = prev, CurrentPollFiles = cur\<rparr>\<rparr>"

definition oldApp :: reader where "oldApp = mkReader ''app.log'' 3 [1, 2, 3]"
definition grownApp :: reader where "grownApp = mkReader ''app.log'' 4 [1, 2, 3, 4]"
definition shortApp :: reader where "shortApp = mkReader ''app.log'' 5 [1, 2]"
definition otherLog :: reader where "otherLog = mkReader ''other.log'' 6 [9]"
definition sameApp :: reader where "sameApp = mkReader ''app.log'' 7 [1, 2, 3]"

text \<open>
  Two answers of \<^verbatim>\<open>Validate\<close>: the file behind every old reader still starts with its
  fingerprint (it was moved, not truncated), or none does.
\<close>

definition stillValid :: "reader \<Rightarrow> bool" where
  "stillValid r = True"

definition neverValid :: "reader \<Rightarrow> bool" where
  "neverValid r = False"

text \<open>
  A file \<^verbatim>\<open>app.log\<close>; the outside world with the file's leading bytes, the result of
  \<^verbatim>\<open>Stat\<close> and the result of \<^verbatim>\<open>header.NewReader\<close>; stored Metadata with two attributes;
  a factory whose resolver fails and one with a header configuration.
\<close>

definition exFile :: osFile where
  "exFile = \<lparr>Name = ''app.log'', fd = 3\<rparr>"

definition exOs :: "fingerprint \<Rightarrow> string + int \<Rightarrow> string + header_Reader \<Rightarrow> os" where
  "exOs content st hr =
     \<lparr>NewFromFile = (\<lambda>fl n z. Inr (take (nat n) content)),
      Stat = (\<lambda>fl. st),
      header_NewReader = (\<lambda>cfg. hr)\<rparr>"

definition exMetadata :: "fingerprint \<Rightarrow> int \<Rightarrow> metadata" where
  "exMetadata fp off =
     \<lparr>Fingerprint = fp, Offset = off,
      FileAttributes = Some [''host'' \<mapsto> AttrString ''a'', ''log.file.name'' \<mapsto> AttrString ''old''],
      HeaderFinalized = False, FileType = []\<rparr>"

definition failingResolver :: "osFile \<Rightarrow> string + (string \<rightharpoonup> attribute)" where
  "failingResolver fl = Inl ''resolve failed''"

definition exFactoryNoAttributes :: factory where
  "exFactoryNoAttributes = (exFactory True)\<lparr>Attributes := failingResolver\<rparr>"

definition exFactoryHeader :: factory where
  "exFactoryHeader = (exFactory True)\<lparr>HeaderConfig := Some (Header_Config ''^#'')\<rparr>"

definition exFactorySize2 :: factory where
  "exFactorySize2 = (exFactory True)\<lparr>FingerprintSize := 2\<rparr>"

section \<open>Lemmas on readLostFiles\<close>

lemmas ex_defs = mkReader_def exFactory_def exManager_def oldApp_def grownApp_def shortApp_def
  otherLog_def sameApp_def stillValid_def neverValid_def

lemmas ex2_defs = exFile_def exOs_def exMetadata_def exFactory_def failingResolver_def
  exFactoryNoAttributes_def exFactoryHeader_def exFactorySize2_def

lemma checkAgainstCurrent_cleared:
  "fst (checkAgainstCurrent V old cur) =
     (\<exists>new \<in> set cur. StartsWith (Fingerprint (Metadata new)) (Fingerprint (Metadata old))
        \<or> (NameEquals new old \<and> \<not> V old))"
  by (induction cur) (simp_all add: case_prod_beta)

lemma collectLostReaders_lost:
  "fst (collectLostReaders V cur prev acc) =
     acc @ filter (\<lambda>old. \<not> fst (checkAgainstCurrent V old cur)) prev"
  by (induction prev arbitrary: acc) (simp_all add: case_prod_beta)

lemma collectLostReaders_log:
  "snd (collectLostReaders V cur prev acc) =
     concat (map (\<lambda>old. snd (checkAgainstCurrent V old cur)) prev)"
  by (induction prev arbitrary: acc) (simp_all add: case_prod_beta)

lemma examined_checkAgainstCurrent:
  "examined (snd (checkAgainstCurrent V old cur)) =
     take (Suc (length (takeWhile (\<lambda>new. \<not> (StartsWith (Fingerprint (Metadata new)) (Fingerprint (Metadata old))
        \<or> (NameEquals new old \<and> \<not> V old))) cur))) cur"
  by (induction cur) (simp_all add: case_prod_beta)

lemma readLostFiles_lost:
  "\<not> DeleteAtEOF (readerFactory m) \<Longrightarrow>
   lostReaders (readLostFiles V m) =
     filter (\<lambda>old. \<not> fst (checkAgainstCurrent V old (CurrentPollFiles (tracker m))))
       (PreviousPollFiles (tracker m))"
  using collectLostReaders_lost[of V "CurrentPollFiles (tracker m)" "PreviousPollFiles (tracker m)" "[]"]
  by (simp add: readLostFiles_def case_prod_beta)

text \<open>
  The log of a run is the log of the inner loop for each previous-poll reader in turn,
  followed by one entry per worker started; a worker is started for exactly the lost
  readers.
\<close>

lemma readLostFiles_entries:
  "\<not> DeleteAtEOF (readerFactory m) \<Longrightarrow>
   entries (readLostFiles V m) =
     concat (map (\<lambda>old. snd (checkAgainstCurrent V old (CurrentPollFiles (tracker m))))
       (PreviousPollFiles (tracker m)))
     @ map DebugReadingLostFile (lostReaders (readLostFiles V m))"
  using collectLostReaders_log[of V "CurrentPollFiles (tracker m)" "PreviousPollFiles (tracker m)" "[]"]
  by (simp add: readLostFiles_def case_prod_beta)

lemma readLostFiles_readToEnd:
  "readToEnd (readLostFiles V m) = lostReaders (readLostFiles V m)"
  by (simp add: readLostFiles_def case_prod_beta)

lemma takeWhile_length_mono:
  "(\<And>x. P x \<Longrightarrow> Q x) \<Longrightarrow> length (takeWhile P xs) \<le> length (takeWhile Q xs)"
  by (induction xs) auto

lemma prefix_take_le: "a \<le> b \<Longrightarrow> prefix (take a xs) (take b xs)"
  by (metis min.absorb_iff1 take_is_prefix take_take)

section \<open>Lemmas on NewReaderFromMetadata\<close>

lemmas construct_defs = constructAfterFingerprint_def resetOffset_def startOffset_def
  attachHeaderReader_def resolveAttributes_def maps_Copy_def initialReader_def

lemma constructAfterFingerprint_Stat_Inl:
  "Stat w fl = Inl e \<Longrightarrow>
   constructAfterFingerprint w f fl m1 = \<lparr>meta = m1, logged = [], result = Inl (StatError e)\<rparr>"
  by (simp add: constructAfterFingerprint_def)

lemma constructAfterFingerprint_header_Inl:
  "Stat w fl = Inr fileSize \<Longrightarrow>
   attachHeaderReader w f (offsetResolved f fl fileSize m1) = Inl e \<Longrightarrow>
   meta (constructAfterFingerprint w f fl m1) = offsetResolved f fl fileSize m1 \<and>
   result (constructAfterFingerprint w f fl m1) = Inl e"
  by (simp add: constructAfterFingerprint_def offsetResolved_def case_prod_beta Let_def)

lemma constructAfterFingerprint_resolve_Inl:
  "Stat w fl = Inr fileSize \<Longrightarrow>
   attachHeaderReader w f (offsetResolved f fl fileSize m1) = Inr hr \<Longrightarrow>
   resolveAttributes f fl (offsetResolved f fl fileSize m1) = Inl e \<Longrightarrow>
   meta (constructAfterFingerprint w f fl m1) = offsetResolved f fl fileSize m1 \<and>
   result (constructAfterFingerprint w f fl m1) = Inl e"
  by (simp add: constructAfterFingerprint_def offsetResolved_def case_prod_beta Let_def)

lemma constructAfterFingerprint_success:
  "Stat w fl = Inr fileSize \<Longrightarrow>
   attachHeaderReader w f (offsetResolved f fl fileSize m1) = Inr hr \<Longrightarrow>
   resolveAttributes f fl (offsetResolved f fl fileSize m1) = Inr m4 \<Longrightarrow>
   meta (constructAfterFingerprint w f fl m1) = m4 \<and>
   logged (constructAfterFingerprint w f fl m1) =
     snd (resetOffset fl fileSize m1) @ snd (startOffset f fl fileSize (fst (resetOffset fl fileSize m1))) \<and>
   result (constructAfterFingerprint w f fl m1) = Inr ((initialReader f fl m4)\<lparr>headerReader := hr\<rparr>)"
  by (simp add: constructAfterFingerprint_def offsetResolved_def case_prod_beta Let_def)

lemma constructAfterFingerprint_Inr:
  assumes "result (constructAfterFingerprint w f fl m1) = Inr r"
  shows "\<exists>fileSize hr m4. Stat w fl = Inr fileSize
           \<and> attachHeaderReader w f (offsetResolved f fl fileSize m1) = Inr hr
           \<and> resolveAttributes f fl (offsetResolved f fl fileSize m1) = Inr m4
           \<and> meta (constructAfterFingerprint w f fl m1) = m4
           \<and> logged (constructAfterFingerprint w f fl m1) =
               snd (resetOffset fl fileSize m1)
               @ snd (startOffset f fl fileSize (fst (resetOffset fl fileSize m1)))
           \<and> r = (initialReader f fl m4)\<lparr>headerReader := hr\<rparr>"
proof (cases "Stat w fl")
  case (Inl e)
  with assms show ?thesis by (simp add: constructAfterFingerprint_Stat_Inl)
next
  case st: (Inr fileSize)
  show ?thesis
  proof (cases "attachHeaderReader w f (offsetResolved f fl fileSize m1)")
    case (Inl e)
    with assms constructAfterFingerprint_header_Inl [OF st Inl] show ?thesis by simp
  next
    case hd: (Inr hr)
    show ?thesis
    proof (cases "resolveAttributes f fl (offsetResolved f fl fileSize m1)")
      case (Inl e)
      with assms constructAfterFingerprint_resolve_Inl [OF st hd Inl] show ?thesis by simp
    next
      case (Inr m4)
      with assms constructAfterFingerprint_success [OF st hd Inr] st hd show ?thesis by auto
    qed
  qed
qed

lemma resolveAttributes_Offset:
  "resolveAttributes f fl m3 = Inr m4 \<Longrightarrow> Offset m4 = Offset m3"
  by (auto simp: resolveAttributes_def split: sum.splits)

lemma resolveAttributes_Fingerprint:
  "resolveAttributes f fl m3 = Inr m4 \<Longrightarrow> Fingerprint m4 = Fingerprint m3"
  by (auto simp: resolveAttributes_def split: sum.splits)

lemma offsetResolved_Fingerprint:
  "Fingerprint (offsetResolved f fl fileSize m1) = Fingerprint m1"
  by (simp add: offsetResolved_def resetOffset_def)

lemma offsetResolved_FileAttributes:
  "FileAttributes (offsetResolved f fl fileSize m1) = FileAttributes m1"
  by (simp add: offsetResolved_def resetOffset_def)

lemma offsetResolved_Offset:
  "Offset (offsetResolved f fl fileSize m1) =
     (let stored = (if Offset m1 > fileSize then 0 else Offset m1) in
      if stored \<noteq> 0 then stored else if FromBeginning f then 0 else fileSize)"
  by (simp add: offsetResolved_def resetOffset_def startOffset_def Let_def)

lemma constructAfterFingerprint_Inr_meta:
  "result (constructAfterFingerprint w f fl m1) = Inr r \<Longrightarrow>
   Metadata r = meta (constructAfterFingerprint w f fl m1)"
  by (drule constructAfterFingerprint_Inr) (auto simp: initialReader_def)

lemma NewReaderFromMetadata_Inr_meta:
  "result (NewReaderFromMetadata w f fl m) = Inr r \<Longrightarrow>
   Metadata r = meta (NewReaderFromMetadata w f fl m)"
  by (auto simp: NewReaderFromMetadata_def constructAfterFingerprint_Inr_meta split: sum.splits)

lemma constructAfterFingerprint_Offset:
  assumes "result (constructAfterFingerprint w f fl m1) = Inr r"
  shows "\<exists>fileSize. Stat w fl = Inr fileSize \<and>
     Offset (Metadata r) =
       (let stored = (if Offset m1 > fileSize then 0 else Offset m1) in
        if stored \<noteq> 0 then stored else if FromBeginning f then 0 else fileSize)"
proof -
  from constructAfterFingerprint_Inr [OF assms] obtain fileSize hr m4 where
    st: "Stat w fl = Inr fileSize"
    and ra: "resolveAttributes f fl (offsetResolved f fl fileSize m1) = Inr m4"
    and r: "r = (initialReader f fl m4)\<lparr>headerReader := hr\<rparr>"
    by blast
  have "Offset (Metadata r) = Offset (offsetResolved f fl fileSize m1)"
    using r resolveAttributes_Offset [OF ra] by (simp add: initialReader_def)
  with st show ?thesis by (simp only: offsetResolved_Offset) blast
qed

lemma handleFingerprintLength_Offset:
  "handleFingerprintLength w f fl m = Inr m1 \<Longrightarrow> Offset m1 = Offset m"
  by (auto simp: handleFingerprintLength_def split: sum.splits if_splits)

lemma handleFingerprintLength_FileAttributes:
  "handleFingerprintLength w f fl m = Inr m1 \<Longrightarrow> FileAttributes m1 = FileAttributes m"
  by (auto simp: handleFingerprintLength_def split: sum.splits if_splits)

section \<open>Lost-file reconciliation\<close>

text \<open>
  Claim C1. For every reader \<open>old\<close> of the previous poll: if some reader \<open>new\<close> of the
  current poll satisfies \<^verbatim>\<open>new.Fingerprint.StartsWith(old.Fingerprint)\<close>, then \<open>old\<close> is
  not appended to the lost set, and the partners examined for \<open>old\<close> (those with a
  lost-check log entry) are an initial segment of the current poll's readers that ends
  no later than the first such partner: nothing after it is examined. When no same-name
  partner fails validation (which would end the scan even earlier), the segment ends
  exactly at the first such partner.
\<close>

theorem readLostFiles_prefix_partner_clears:
  assumes "old \<in> set (PreviousPollFiles (tracker m))"
    and "new \<in> set (CurrentPollFiles (tracker m))"
    and "StartsWith (Fingerprint (Metadata new)) (Fingerprint (Metadata old))"
  shows "old \<notin> set (lostReaders (readLostFiles V m))
       \<and> prefix (examined (snd (checkAgainstCurrent V old (CurrentPollFiles (tracker m)))))
           (take (Suc (length (takeWhile
                 (\<lambda>n. \<not> StartsWith (Fingerprint (Metadata n)) (Fingerprint (Metadata old)))
                 (CurrentPollFiles (tracker m)))))
              (CurrentPollFiles (tracker m)))
       \<and> ((\<forall>n \<in> set (CurrentPollFiles (tracker m)). NameEquals n old \<longrightarrow> V old) \<longrightarrow>
            examined (snd (checkAgainstCurrent V old (CurrentPollFiles (tracker m)))) =
            take (Suc (length (takeWhile
                 (\<lambda>n. \<not> StartsWith (Fingerprint (Metadata n)) (Fingerprint (Metadata old)))
                 (CurrentPollFiles (tracker m)))))
              (CurrentPollFiles (tracker m)))"
proof -
  let ?cur = "CurrentPollFiles (tracker m)"
  let ?sw = "\<lambda>n. StartsWith (Fingerprint (Metadata n)) (Fingerprint (Metadata old))"
  have cleared: "fst (checkAgainstCurrent V old ?cur)"
    using assms(2,3) by (auto simp: checkAgainstCurrent_cleared)
  have notlost: "old \<notin> set (lostReaders (readLostFiles V m))"
  proof (cases "DeleteAtEOF (readerFactory m)")
    case True
    then show ?thesis by (simp add: readLostFiles_def)
  next
    case False
    then show ?thesis using cleared by (simp add: readLostFiles_lost)
  qed
  have le: "length (takeWhile (\<lambda>n. \<not> (?sw n \<or> (NameEquals n old \<and> \<not> V old))) ?cur)
              \<le> length (takeWhile (\<lambda>n. \<not> ?sw n) ?cur)"
    by (rule takeWhile_length_mono) simp
  have pre: "prefix (examined (snd (checkAgainstCurrent V old ?cur)))
               (take (Suc (length (takeWhile (\<lambda>n. \<not> ?sw n) ?cur))) ?cur)"
    unfolding examined_checkAgainstCurrent using le by (intro prefix_take_le) simp
  have eq: "examined (snd (checkAgainstCurrent V old ?cur)) =
              take (Suc (length (takeWhile (\<lambda>n. \<not> ?sw n) ?cur))) ?cur"
    if "\<forall>n \<in> set ?cur. NameEquals n old \<longrightarrow> V old"
  proof -
    have "takeWhile (\<lambda>n. \<not> (?sw n \<or> (NameEquals n old \<and> \<not> V old))) ?cur
            = takeWhile (\<lambda>n. \<not> ?sw n) ?cur"
      using that by (intro takeWhile_cong) auto
    then show ?thesis by (simp add: examined_checkAgainstCurrent)
  qed
  show ?thesis using notlost pre eq by blast
qed

theorem readLostFiles_prefix_partner_clears_witness:
  "oldApp \<notin> set (lostReaders (readLostFiles stillValid
       (exManager False [oldApp] [otherLog, grownApp, shortApp])))
   \<and> examined (snd (checkAgainstCurrent stillValid oldApp [otherLog, grownApp, shortApp]))
       = [otherLog, grownApp]"
  using readLostFiles_prefix_partner_clears
    [of oldApp "exManager False [oldApp] [otherLog, grownApp, shortApp]" grownApp stillValid]
  by (simp add: ex_defs StartsWith_def NameEquals_def)

text \<open>
  Claim C5. For a reader \<open>old\<close> of the previous poll (delete-at-EOF off): if some
  current reader has the same file name and \<^verbatim>\<open>old.Validate()\<close> is false (truncated in
  place), \<open>old\<close> is not in the lost set; if \<^verbatim>\<open>old.Validate()\<close> is true (moved), \<open>old\<close>
  is in the lost set exactly when no current reader clears it, which then only a
  fingerprint-prefix partner can do.
\<close>

theorem readLostFiles_same_name_partner:
  assumes "\<not> DeleteAtEOF (readerFactory m)"
    and "old \<in> set (PreviousPollFiles (tracker m))"
  shows "((\<exists>new \<in> set (CurrentPollFiles (tracker m)). NameEquals new old) \<and> \<not> V old
            \<longrightarrow> old \<notin> set (lostReaders (readLostFiles V m)))
       \<and> (V old \<longrightarrow>
            (old \<in> set (lostReaders (readLostFiles V m))) =
            (\<forall>new \<in> set (CurrentPollFiles (tracker m)).
               \<not> StartsWith (Fingerprint (Metadata new)) (Fingerprint (Metadata old))))"
  using assms by (auto simp: readLostFiles_lost checkAgainstCurrent_cleared)

theorem readLostFiles_same_name_partner_witness:
  "oldApp \<notin> set (lostReaders (readLostFiles neverValid
       (exManager False [oldApp] [otherLog, shortApp])))
   \<and> oldApp \<in> set (lostReaders (readLostFiles stillValid
       (exManager False [oldApp] [otherLog, shortApp])))"
  using readLostFiles_same_name_partner
    [of "exManager False [oldApp] [otherLog, shortApp]" oldApp neverValid]
    readLostFiles_same_name_partner
    [of "exManager False [oldApp] [otherLog, shortApp]" oldApp stillValid]
  by (simp add: ex_defs StartsWith_def NameEquals_def)

text \<open>
  Claim C6. With delete-at-EOF enabled \<^verbatim>\<open>readLostFiles\<close> returns at once: the lost set
  is empty, \<^verbatim>\<open>ReadToEnd\<close> is called on no reader, and nothing is logged (no partner is
  examined, no reader validated).
\<close>

theorem readLostFiles_deleteAtEOF:
  assumes "DeleteAtEOF (readerFactory m)"
  shows "readLostFiles V m = \<lparr>lostReaders = [], readToEnd = [], entries = []\<rparr>"
  using assms by (simp add: readLostFiles_def)

theorem readLostFiles_deleteAtEOF_witness:
  "readLostFiles stillValid (exManager True [oldApp] [otherLog])
     = \<lparr>lostReaders = [], readToEnd = [], entries = []\<rparr>
   \<and> lostReaders (readLostFiles stillValid (exManager False [oldApp] [otherLog])) = [oldApp]"
proof -
  have "DeleteAtEOF (readerFactory (exManager True [oldApp] [otherLog]))"
    by (simp add: ex_defs)
  from readLostFiles_deleteAtEOF [OF this, of stillValid]
  show ?thesis
    by (simp add: ex_defs readLostFiles_def StartsWith_def NameEquals_def)
qed

text \<open>
  A file whose content only grew keeps its leading bytes, so the fingerprint captured
  before, at any size, is a prefix of the one captured after at the same size.
\<close>

lemma grown_content_fingerprint:
  "prefix oldContent newContent \<Longrightarrow> prefix (take n oldContent) (take n newContent)"
  by (auto simp: prefix_def)



section \<open>Reader construction\<close>

text \<open>
  Claim C4. For every successful call, the Reader's starting Offset is: the stored
  Offset (after the copy-truncate reset) when that is non-zero; otherwise 0 when
  FromBeginning is set, and the file's current size when it is not.
\<close>

theorem NewReaderFromMetadata_start_offset:
  assumes "result (NewReaderFromMetadata w f fl m) = Inr r"
  shows "\<exists>fileSize. Stat w fl = Inr fileSize \<and>
     Offset (Metadata r) =
       (let stored = (if Offset m > fileSize then 0 else Offset m) in
        if stored \<noteq> 0 then stored else if FromBeginning f then 0 else fileSize)"
proof (cases "handleFingerprintLength w f fl m")
  case (Inl e)
  with assms show ?thesis by (simp add: NewReaderFromMetadata_def)
next
  case (Inr m1)
  with assms have "result (constructAfterFingerprint w f fl m1) = Inr r"
    by (simp add: NewReaderFromMetadata_def)
  from constructAfterFingerprint_Offset [OF this] show ?thesis
    unfolding handleFingerprintLength_Offset [OF Inr] .
qed

theorem NewReaderFromMetadata_start_offset_witness:
  "(\<exists>r. result (NewReaderFromMetadata (exOs [1, 2, 3] (Inr 200) (Inl ''none'')) (exFactory False)
            exFile (exMetadata [1, 2, 3] 120)) = Inr r \<and> Offset (Metadata r) = 120)
   \<and> (\<exists>r. result (NewReaderFromMetadata (exOs [1, 2, 3] (Inr 200) (Inl ''none'')) (exFactory True)
            exFile (exMetadata [1, 2, 3] 0)) = Inr r \<and> Offset (Metadata r) = 0)
   \<and> (\<exists>r. result (NewReaderFromMetadata (exOs [1, 2, 3] (Inr 200) (Inl ''none'')) (exFactory False)
            exFile (exMetadata [1, 2, 3] 0)) = Inr r \<and> Offset (Metadata r) = 200)"
proof -
  let ?w = "exOs [1, 2, 3] (Inr 200) (Inl ''none'')"
  obtain r1 where r1: "result (NewReaderFromMetadata ?w (exFactory False) exFile (exMetadata [1, 2, 3] 120)) = Inr r1"
    by (simp add: NewReaderFromMetadata_def handleFingerprintLength_def Len_def construct_defs ex2_defs)
  obtain r2 where r2: "result (NewReaderFromMetadata ?w (exFactory True) exFile (exMetadata [1, 2, 3] 0)) = Inr r2"
    by (simp add: NewReaderFromMetadata_def handleFingerprintLength_def Len_def construct_defs ex2_defs)
  obtain r3 where r3: "result (NewReaderFromMetadata ?w (exFactory False) exFile (exMetadata [1, 2, 3] 0)) = Inr r3"
    by (simp add: NewReaderFromMetadata_def handleFingerprintLength_def Len_def construct_defs ex2_defs)
  show ?thesis
    using NewReaderFromMetadata_start_offset [OF r1] NewReaderFromMetadata_start_offset [OF r2]
      NewReaderFromMetadata_start_offset [OF r3] r1 r2 r3
    by (simp add: ex2_defs)
qed

lemma constructAfterFingerprint_Fingerprint:
  "Fingerprint (meta (constructAfterFingerprint w f fl m1)) = Fingerprint m1"
proof (cases "Stat w fl")
  case (Inl e)
  then show ?thesis by (simp add: constructAfterFingerprint_Stat_Inl)
next
  case st: (Inr fileSize)
  show ?thesis
  proof (cases "attachHeaderReader w f (offsetResolved f fl fileSize m1)")
    case (Inl e)
    with constructAfterFingerprint_header_Inl [OF st Inl] show ?thesis
      by (simp add: offsetResolved_Fingerprint)
  next
    case hd: (Inr hr)
    show ?thesis
    proof (cases "resolveAttributes f fl (offsetResolved f fl fileSize m1)")
      case (Inl e)
      with constructAfterFingerprint_resolve_Inl [OF st hd Inl] show ?thesis
        by (simp add: offsetResolved_Fingerprint)
    next
      case (Inr m4)
      with constructAfterFingerprint_success [OF st hd Inr] resolveAttributes_Fingerprint [OF Inr]
      show ?thesis by (simp add: offsetResolved_Fingerprint)
    qed
  qed
qed

lemma resolveAttributes_Inr:
  assumes "resolveAttributes f fl m3 = Inr m4"
  shows "\<exists>fresh. Attributes f fl = Inr fresh
           \<and> entriesOf (FileAttributes m4) = entriesOf (FileAttributes m3) ++ fresh"
proof (cases "Attributes f fl")
  case (Inl e)
  with assms show ?thesis by (simp add: resolveAttributes_def)
next
  case (Inr fresh)
  show ?thesis
  proof (cases "FileAttributes m3")
    case None
    with assms Inr have "dom fresh = {}" "FileAttributes m4 = None"
      by (auto simp: resolveAttributes_def maps_Copy_def split: if_splits)
    with None Inr show ?thesis by (simp add: entriesOf_def)
  next
    case (Some d)
    with assms Inr have "FileAttributes m4 = Some (d ++ fresh)"
      by (auto simp: resolveAttributes_def maps_Copy_def)
    with Some Inr show ?thesis by (simp add: entriesOf_def)
  qed
qed

lemma constructAfterFingerprint_Inl:
  assumes "result (constructAfterFingerprint w f fl m1) = Inl e"
    and "Stat w fl = Inr fileSize"
  shows "attachHeaderReader w f (offsetResolved f fl fileSize m1) = Inl e
       \<or> resolveAttributes f fl (offsetResolved f fl fileSize m1) = Inl e"
proof (cases "attachHeaderReader w f (offsetResolved f fl fileSize m1)")
  case (Inl e')
  with assms constructAfterFingerprint_header_Inl [OF assms(2) Inl] show ?thesis by simp
next
  case hd: (Inr hr)
  show ?thesis
  proof (cases "resolveAttributes f fl (offsetResolved f fl fileSize m1)")
    case (Inl e')
    with assms constructAfterFingerprint_resolve_Inl [OF assms(2) hd Inl] show ?thesis by simp
  next
    case (Inr m4)
    with assms constructAfterFingerprint_success [OF assms(2) hd Inr] show ?thesis by simp
  qed
qed

lemma constructAfterFingerprint_logged:
  "Stat w fl = Inr fileSize \<Longrightarrow>
   logged (constructAfterFingerprint w f fl m1) =
     snd (resetOffset fl fileSize m1)
     @ snd (startOffset f fl fileSize (fst (resetOffset fl fileSize m1)))"
  by (simp add: constructAfterFingerprint_def case_prod_beta Let_def split: sum.splits)

lemma constructAfterFingerprint_meta_Offset:
  assumes st: "Stat w fl = Inr fileSize"
  shows "Offset (meta (constructAfterFingerprint w f fl m1))
           = Offset (offsetResolved f fl fileSize m1)"
proof (cases "attachHeaderReader w f (offsetResolved f fl fileSize m1)")
  case (Inl e)
  with constructAfterFingerprint_header_Inl [OF st Inl] show ?thesis by simp
next
  case hd: (Inr hr)
  show ?thesis
  proof (cases "resolveAttributes f fl (offsetResolved f fl fileSize m1)")
    case (Inl e)
    with constructAfterFingerprint_resolve_Inl [OF st hd Inl] show ?thesis by simp
  next
    case (Inr m4)
    with constructAfterFingerprint_success [OF st hd Inr] resolveAttributes_Offset [OF Inr]
    show ?thesis by simp
  qed
qed

lemma NewReaderFromMetadata_offset_beyond_size:
  assumes "handleFingerprintLength w f fl m = Inr m1"
    and "Stat w fl = Inr fileSize" and "Offset m > fileSize"
  shows "take 1 (logged (NewReaderFromMetadata w f fl m))
           = [WarnOffsetExceeds (Name fl) (Offset m) fileSize]
       \<and> Offset (meta (NewReaderFromMetadata w f fl m))
           = (if FromBeginning f then 0 else fileSize)"
proof -
  have eq: "NewReaderFromMetadata w f fl m = constructAfterFingerprint w f fl m1"
    using assms(1) by (simp add: NewReaderFromMetadata_def)
  have off: "Offset m1 = Offset m" by (rule handleFingerprintLength_Offset [OF assms(1)])
  have "take 1 (logged (constructAfterFingerprint w f fl m1))
          = [WarnOffsetExceeds (Name fl) (Offset m) fileSize]"
    using assms(3) off by (simp add: constructAfterFingerprint_logged [OF assms(2)] resetOffset_def)
  moreover have "Offset (meta (constructAfterFingerprint w f fl m1))
          = (if FromBeginning f then 0 else fileSize)"
    using assms(3) off
    by (simp add: constructAfterFingerprint_meta_Offset [OF assms(2)] offsetResolved_Offset)
  ultimately show ?thesis unfolding eq by simp
qed

text \<open>
  Claim C2: whenever the stored Offset exceeds the file's size, the call resets the
  Offset to 0, logging a warning, and yields a Reader whose Offset is 0. The code does
  so with FromBeginning set. In tailing mode it does not: with stored Offset 1000, file
  size 200 and FromBeginning false, the call succeeds and logs the warning
  "resetting to 0", but the zero written at line 127 is read back at line 135 as "no
  offset known" and overwritten with the file's size: the Reader returned, and the
  caller's Metadata, have Offset 200.
\<close>

theorem copytruncate_tailing_reader_offset:
  "Stat (exOs [1, 2, 3] (Inr 200) (Inl ''none'')) exFile = Inr 200
   \<and> Offset (exMetadata [1, 2, 3] 1000) = 1000
   \<and> FromBeginning (exFactory False) = False
   \<and> \<not> isl (result (NewReaderFromMetadata (exOs [1, 2, 3] (Inr 200) (Inl ''none''))
          (exFactory False) exFile (exMetadata [1, 2, 3] 1000)))
   \<and> Offset (Metadata (projr (result (NewReaderFromMetadata (exOs [1, 2, 3] (Inr 200) (Inl ''none''))
          (exFactory False) exFile (exMetadata [1, 2, 3] 1000))))) = 200
   \<and> Offset (meta (NewReaderFromMetadata (exOs [1, 2, 3] (Inr 200) (Inl ''none''))
          (exFactory False) exFile (exMetadata [1, 2, 3] 1000))) = 200
   \<and> logged (NewReaderFromMetadata (exOs [1, 2, 3] (Inr 200) (Inl ''none''))
          (exFactory False) exFile (exMetadata [1, 2, 3] 1000))
       = [WarnOffsetExceeds ''app.log'' 1000 200, DebugTailing ''app.log'' 200]
   \<and> Offset (Metadata (projr (result (NewReaderFromMetadata (exOs [1, 2, 3] (Inr 200) (Inl ''none''))
          (exFactory True) exFile (exMetadata [1, 2, 3] 1000))))) = 0"
  by (simp add: NewReaderFromMetadata_def handleFingerprintLength_def Len_def
      construct_defs ex2_defs)

text \<open>
  Claim C3. When the stored fingerprint is longer than the configured size and a
  fingerprint is recomputed from the file at that size: if the stored fingerprint does
  not start with the recomputed one, the call fails with the truncation error, returns
  no Reader (and leaves the Metadata as it was); if it does, the Metadata's fingerprint
  is replaced by the recomputed one and construction continues from there.
\<close>

theorem NewReaderFromMetadata_fingerprint_shrunk:
  assumes "Len (Fingerprint m) > FingerprintSize f"
    and "NewFromFile w fl (FingerprintSize f) (Compression f \<noteq> []) = Inr shorter"
  shows "(\<not> StartsWith (Fingerprint m) shorter \<longrightarrow>
            NewReaderFromMetadata w f fl m = \<lparr>meta = m, logged = [], result = Inl FileTruncated\<rparr>)
       \<and> (StartsWith (Fingerprint m) shorter \<longrightarrow>
            NewReaderFromMetadata w f fl m
              = constructAfterFingerprint w f fl (m\<lparr>Fingerprint := shorter\<rparr>)
            \<and> Fingerprint (meta (NewReaderFromMetadata w f fl m)) = shorter)"
  using assms
  by (simp add: NewReaderFromMetadata_def handleFingerprintLength_def
      constructAfterFingerprint_Fingerprint)

theorem NewReaderFromMetadata_fingerprint_shrunk_witness:
  "NewReaderFromMetadata (exOs [1, 2, 9, 9] (Inr 200) (Inl ''none'')) exFactorySize2
       exFile (exMetadata [1, 2, 3] 0)
     = constructAfterFingerprint (exOs [1, 2, 9, 9] (Inr 200) (Inl ''none''))
         exFactorySize2 exFile (exMetadata [1, 2] 0)
   \<and> (\<exists>r. result (NewReaderFromMetadata (exOs [1, 2, 9, 9] (Inr 200) (Inl ''none''))
         exFactorySize2 exFile (exMetadata [1, 2, 3] 0)) = Inr r
         \<and> Fingerprint (Metadata r) = [1, 2])
   \<and> NewReaderFromMetadata (exOs [1, 7, 9, 9] (Inr 200) (Inl ''none'')) exFactorySize2
       exFile (exMetadata [1, 2, 3] 0)
     = \<lparr>meta = exMetadata [1, 2, 3] 0, logged = [], result = Inl FileTruncated\<rparr>"
proof -
  let ?f = exFactorySize2
  let ?w = "exOs [1, 2, 9, 9] (Inr 200) (Inl ''none'')"
  let ?w' = "exOs [1, 7, 9, 9] (Inr 200) (Inl ''none'')"
  have len: "Len (Fingerprint (exMetadata [1, 2, 3] 0)) > FingerprintSize ?f"
    by (simp add: ex2_defs Len_def)
  have a: "NewFromFile ?w exFile (FingerprintSize ?f) (Compression ?f \<noteq> []) = Inr [1, 2]"
    by (simp add: ex2_defs)
  have b: "NewFromFile ?w' exFile (FingerprintSize ?f) (Compression ?f \<noteq> []) = Inr [1, 7]"
    by (simp add: ex2_defs)
  have c: "\<exists>r. result (constructAfterFingerprint ?w ?f exFile (exMetadata [1, 2] 0)) = Inr r
         \<and> Fingerprint (Metadata r) = [1, 2]"
    by (simp add: construct_defs ex2_defs)
  show ?thesis
    using NewReaderFromMetadata_fingerprint_shrunk [OF len a]
      NewReaderFromMetadata_fingerprint_shrunk [OF len b] c
    by (simp add: StartsWith_def ex2_defs)
qed

text \<open>
  Claim C8. For every successful call the freshly resolved attributes are merged into
  the Metadata's map: a key absent from the fresh resolution keeps the value it had
  (or stays absent), a freshly resolved key has its fresh value.
\<close>

theorem NewReaderFromMetadata_merges_attributes:
  assumes "result (NewReaderFromMetadata w f fl m) = Inr r"
  shows "\<exists>fresh. Attributes f fl = Inr fresh
           \<and> (\<forall>k. k \<notin> dom fresh \<longrightarrow>
                 entriesOf (FileAttributes (Metadata r)) k = entriesOf (FileAttributes m) k)
           \<and> (\<forall>k. k \<in> dom fresh \<longrightarrow>
                 entriesOf (FileAttributes (Metadata r)) k = fresh k)"
proof (cases "handleFingerprintLength w f fl m")
  case (Inl e)
  with assms show ?thesis by (simp add: NewReaderFromMetadata_def)
next
  case (Inr m1)
  with assms have "result (constructAfterFingerprint w f fl m1) = Inr r"
    by (simp add: NewReaderFromMetadata_def)
  from constructAfterFingerprint_Inr [OF this] obtain fileSize hr m4 where
    ra: "resolveAttributes f fl (offsetResolved f fl fileSize m1) = Inr m4"
    and r: "r = (initialReader f fl m4)\<lparr>headerReader := hr\<rparr>"
    by blast
  from resolveAttributes_Inr [OF ra] obtain fresh where
    fresh: "Attributes f fl = Inr fresh"
    and merged: "entriesOf (FileAttributes m4) = entriesOf (FileAttributes m1) ++ fresh"
    by (auto simp: offsetResolved_FileAttributes)
  have "entriesOf (FileAttributes (Metadata r)) = entriesOf (FileAttributes m) ++ fresh"
    using r merged handleFingerprintLength_FileAttributes [OF Inr]
    by (simp add: initialReader_def)
  with fresh show ?thesis
    by (auto simp: map_add_dom_app_simps domIff map_add_def split: option.splits)
qed

theorem NewReaderFromMetadata_merges_attributes_witness:
  "\<exists>r. result (NewReaderFromMetadata (exOs [1, 2, 3] (Inr 200) (Inl ''none'')) (exFactory True)
            exFile (exMetadata [1, 2, 3] 0)) = Inr r
     \<and> entriesOf (FileAttributes (Metadata r)) ''host'' = Some (AttrString ''a'')
     \<and> entriesOf (FileAttributes (Metadata r)) ''log.file.name'' = Some (AttrString ''app.log'')"
proof -
  let ?w = "exOs [1, 2, 3] (Inr 200) (Inl ''none'')"
  obtain r where r: "result (NewReaderFromMetadata ?w (exFactory True) exFile (exMetadata [1, 2, 3] 0)) = Inr r"
    by (simp add: NewReaderFromMetadata_def handleFingerprintLength_def Len_def construct_defs ex2_defs)
  from NewReaderFromMetadata_merges_attributes [OF r] obtain fresh where
    fresh: "Attributes (exFactory True) exFile = Inr fresh"
    and keep: "\<forall>k. k \<notin> dom fresh \<longrightarrow>
          entriesOf (FileAttributes (Metadata r)) k = entriesOf (FileAttributes (exMetadata [1, 2, 3] 0)) k"
    and over: "\<forall>k. k \<in> dom fresh \<longrightarrow> entriesOf (FileAttributes (Metadata r)) k = fresh k"
    by blast
  from fresh have f: "fresh = [''log.file.name'' \<mapsto> AttrString ''app.log'']"
    by (simp add: ex2_defs)
  have "entriesOf (FileAttributes (Metadata r)) ''host'' = Some (AttrString ''a'')"
    using keep [rule_format, of "''host''"] by (simp add: f ex2_defs entriesOf_def)
  moreover have "entriesOf (FileAttributes (Metadata r)) ''log.file.name'' = Some (AttrString ''app.log'')"
    using over [rule_format, of "''log.file.name''"] by (simp add: f)
  ultimately show ?thesis using r by blast
qed

text \<open>
  Claim C9. The call is not atomic in its Metadata argument: there are inputs where it
  replaces the Fingerprint and then fails at Stat, and inputs where it resets the
  Offset to 0 on the copy-truncate path and then fails in the header reader or in the
  attribute resolution; the caller's Metadata stays changed and no Reader is returned.
\<close>

theorem NewReaderFromMetadata_not_atomic:
  "(\<exists>w f fl m e. result (NewReaderFromMetadata w f fl m) = Inl (StatError e)
        \<and> Fingerprint (meta (NewReaderFromMetadata w f fl m)) \<noteq> Fingerprint m)
   \<and> (\<exists>w f fl m e. result (NewReaderFromMetadata w f fl m) = Inl (HeaderReaderError e)
        \<and> Offset m \<noteq> 0 \<and> Offset (meta (NewReaderFromMetadata w f fl m)) = 0)
   \<and> (\<exists>w f fl m e. result (NewReaderFromMetadata w f fl m) = Inl (ResolveError e)
        \<and> Offset m \<noteq> 0 \<and> Offset (meta (NewReaderFromMetadata w f fl m)) = 0)"
proof -
  let ?o1 = "NewReaderFromMetadata (exOs [1, 2, 3, 4, 5] (Inl ''stat failed'') (Inl ''none''))
        (exFactory True) exFile (exMetadata [1, 2, 3, 4, 5] 0)"
  have 1: "result ?o1 = Inl (StatError ''stat failed'')
        \<and> Fingerprint (meta ?o1) \<noteq> Fingerprint (exMetadata [1, 2, 3, 4, 5] 0)"
    by (simp add: NewReaderFromMetadata_def handleFingerprintLength_def Len_def StartsWith_def
        constructAfterFingerprint_def ex2_defs)
  let ?o2 = "NewReaderFromMetadata (exOs [1, 2, 3] (Inr 200) (Inl ''bad header''))
        exFactoryHeader exFile
        (exMetadata [1, 2, 3] 1000)"
  have 2: "result ?o2 = Inl (HeaderReaderError ''bad header'')
        \<and> Offset (exMetadata [1, 2, 3] 1000) \<noteq> 0 \<and> Offset (meta ?o2) = 0"
    by (simp add: NewReaderFromMetadata_def handleFingerprintLength_def Len_def
        construct_defs ex2_defs)
  let ?o3 = "NewReaderFromMetadata (exOs [1, 2, 3] (Inr 200) (Inl ''none''))
        exFactoryNoAttributes exFile
        (exMetadata [1, 2, 3] 1000)"
  have 3: "result ?o3 = Inl (ResolveError ''resolve failed'')
        \<and> Offset (exMetadata [1, 2, 3] 1000) \<noteq> 0 \<and> Offset (meta ?o3) = 0"
    by (simp add: NewReaderFromMetadata_def handleFingerprintLength_def Len_def
        construct_defs ex2_defs)
  from 1 2 3 show ?thesis by blast
qed

end
